theory Spec2Isabelle
  imports Main "HOL-Library.Multiset" "HOL-Library.Sublist"
begin

section \<open>JavaScript values\<close>

text \<open>
  The route handlers of \<^verbatim>\<open>server.js\<close> read \<^verbatim>\<open>req.body\<close>, which
  \<^verbatim>\<open>express.json()\<close> has parsed from JSON text, and test the fields for
  truthiness. A value is therefore one of the JSON shapes, plus \<^verbatim>\<open>undefined\<close>
  for a field that the body does not have. Numbers are the integers: \<open>JNum n\<close> is the
  JavaScript number of value \<open>n\<close>, which exists for every \<open>n\<close> of magnitude below
  \<open>2 ^ 53\<close>; fractions and the non-finite numbers are not values of the model. Strings
  are byte strings. An object is the list of its own properties in insertion order, with
  distinct keys.
\<close>

datatype jsval =
    JUndefined
  | JNull
  | JBool bool
  | JNum int
  | JStr string
  | JArr "jsval list"
  | JObj "(string \<times> jsval) list"

text \<open>\<^verbatim>\<open>!v\<close> is \<open>\<not> truthy v\<close>: the falsy values are undefined, null, false, 0 and
  the empty string; every array and every object is truthy.\<close>

fun truthy :: "jsval \<Rightarrow> bool" where
  "truthy JUndefined = False"
| "truthy JNull = False"
| "truthy (JBool b) = b"
| "truthy (JNum n) = (n \<noteq> 0)"
| "truthy (JStr s) = (s \<noteq> [])"
| "truthy (JArr xs) = True"
| "truthy (JObj kvs) = True"

text \<open>\<^verbatim>\<open>const { username, password } = req.body\<close>: a field the body lacks is
  undefined. The body is the property list of the parsed JSON object.\<close>

definition field :: "(string \<times> jsval) list \<Rightarrow> string \<Rightarrow> jsval" where
  "field body k = (case map_of body k of None \<Rightarrow> JUndefined | Some v \<Rightarrow> v)"

text \<open>\<^verbatim>\<open>item.id\<close>: reading a property of null or undefined throws a TypeError
  (\<open>None\<close>); an object gives its own property or undefined; the other values have none of
  the properties the handlers read (id, name, quantity, price).\<close>

fun get_prop :: "jsval \<Rightarrow> string \<Rightarrow> jsval option" where
  "get_prop JUndefined k = None"
| "get_prop JNull k = None"
| "get_prop (JObj kvs) k = Some (field kvs k)"
| "get_prop v k = Some JUndefined"

section \<open>JSON.stringify\<close>

text \<open>The serialisation \<^verbatim>\<open>JSON.stringify(items)\<close> of ECMA-262, without indentation:
  no white space, object members in property order, the quote, the backslash and the
  control characters of a string escaped. Inside an array undefined is written
  \<^verbatim>\<open>null\<close>, inside an object a member whose value is undefined is left out, and
  the serialisation of undefined itself is undefined. An integer of magnitude below
  \<open>2 ^ 53\<close> is written with all its digits. The text of a larger number (the shortest
  digits that denote it, padded with zeros, and with an exponent from \<open>10 ^ 21\<close> on)
  depends on the number only, and is left open here.\<close>

definition digit_char :: "nat \<Rightarrow> char" where
  "digit_char d = char_of (48 + d)"

function show_nat :: "nat \<Rightarrow> string" where
  "show_nat n = (if n < 10 then [digit_char n] else show_nat (n div 10) @ [digit_char (n mod 10)])"
  by pat_completeness auto
termination
  by (relation "measure id") auto

definition show_int :: "int \<Rightarrow> string" where
  "show_int i = (if i < 0 then CHR ''-'' # show_nat (nat (- i)) else show_nat (nat i))"

definition hex_char :: "nat \<Rightarrow> char" where
  "hex_char d = (if d < 10 then char_of (48 + d) else char_of (87 + d))"

definition quote_char :: "char \<Rightarrow> string" where
  "quote_char c =
     (if c = CHR 0x08 then [CHR 0x5C, CHR ''b'']
      else if c = CHR 0x09 then [CHR 0x5C, CHR ''t'']
      else if c = CHR 0x0A then [CHR 0x5C, CHR ''n'']
      else if c = CHR 0x0C then [CHR 0x5C, CHR ''f'']
      else if c = CHR 0x0D then [CHR 0x5C, CHR ''r'']
      else if c = CHR 0x22 then [CHR 0x5C, CHR 0x22]
      else if c = CHR 0x5C then [CHR 0x5C, CHR 0x5C]
      else if of_char c < (32 :: nat)
        then [CHR 0x5C, CHR ''u'', CHR ''0'', CHR ''0'',
              hex_char (of_char c div 16), hex_char (of_char c mod 16)]
      else [c])"

definition quote :: "string \<Rightarrow> string" where
  "quote s = CHR 0x22 # concat (map quote_char s) @ [CHR 0x22]"

fun serialize :: "jsval \<Rightarrow> string"
  and serialize_elements :: "jsval list \<Rightarrow> string"
  and serialize_members :: "bool \<Rightarrow> (string \<times> jsval) list \<Rightarrow> string" where
  "serialize JUndefined = ''null''"
| "serialize JNull = ''null''"
| "serialize (JBool b) = (if b then ''true'' else ''false'')"
| "serialize (JNum n) =
     (if \<bar>n\<bar> < 2 ^ 53 then show_int n else (undefined :: int \<Rightarrow> string) n)"
| "serialize (JStr s) = quote s"
| "serialize (JArr xs) = ''['' @ serialize_elements xs @ '']''"
| "serialize (JObj kvs) = ''{'' @ serialize_members True kvs @ ''}''"
| "serialize_elements [] = []"
| "serialize_elements [x] = serialize x"
| "serialize_elements (x # y # ys) = serialize x @ '','' @ serialize_elements (y # ys)"
| "serialize_members first [] = []"
| "serialize_members first ((k, v) # kvs) =
     (if v = JUndefined then serialize_members first kvs
      else (if first then [] else '','') @ quote k @ '':'' @ serialize v
             @ serialize_members False kvs)"

definition JSON_stringify :: "jsval \<Rightarrow> jsval" where
  "JSON_stringify v = (if v = JUndefined then JUndefined else JStr (serialize v))"

section \<open>The store\<close>

text \<open>The three \<^verbatim>\<open>CREATE TABLE IF NOT EXISTS\<close> statements of \<^verbatim>\<open>server.js\<close>, as
  data: each column with its type and its constraints, and the foreign keys (child
  column, parent table, parent column), which SQLite records and does not enforce unless
  the connection asks for it; the program never does.\<close>

datatype sqltype = INTEGER | TEXT | REAL | DATETIME

datatype colcon = PRIMARY_KEY_AUTOINCREMENT | UNIQUE | NOT_NULL | DEFAULT_CURRENT_TIMESTAMP

record tabledef =
  columns :: "(string \<times> sqltype \<times> colcon list) list"
  foreign_keys :: "(string \<times> string \<times> string) list"

definition users_def :: tabledef where
  "users_def =
     \<lparr>columns =
        [(''id'', INTEGER, [PRIMARY_KEY_AUTOINCREMENT]),
         (''username'', TEXT, [UNIQUE, NOT_NULL]),
         (''password'', TEXT, [NOT_NULL]),
         (''created_at'', DATETIME, [DEFAULT_CURRENT_TIMESTAMP])],
      foreign_keys = []\<rparr>"

definition orders_def :: tabledef where
  "orders_def =
     \<lparr>columns =
        [(''id'', INTEGER, [PRIMARY_KEY_AUTOINCREMENT]),
         (''username'', TEXT, [NOT_NULL]),
         (''items'', TEXT, [NOT_NULL]),
         (''total'', REAL, [NOT_NULL]),
         (''order_date'', DATETIME, [DEFAULT_CURRENT_TIMESTAMP])],
      foreign_keys = [(''username'', ''users'', ''username'')]\<rparr>"

definition cart_history_def :: tabledef where
  "cart_history_def =
     \<lparr>columns =
        [(''id'', INTEGER, [PRIMARY_KEY_AUTOINCREMENT]),
         (''username'', TEXT, [NOT_NULL]),
         (''item_id'', INTEGER, [NOT_NULL]),
         (''item_name'', TEXT, [NOT_NULL]),
         (''quantity'', INTEGER, [NOT_NULL]),
         (''price'', REAL, [NOT_NULL]),
         (''added_date'', DATETIME, [DEFAULT_CURRENT_TIMESTAMP])],
      foreign_keys = [(''username'', ''users'', ''username'')]\<rparr>"

text \<open>Rows. A cell is the JavaScript value that a query gives back for it. The
  identifier is the rowid, and a timestamp is the clock's reading in seconds, whose
  order is the order of the \<^verbatim>\<open>YYYY-MM-DD HH:MM:SS\<close> texts that SQLite stores.\<close>

record user_row =
  u_id :: nat
  u_username :: jsval
  u_password :: jsval
  u_created_at :: nat

record order_row =
  o_id :: nat
  o_username :: jsval
  o_items :: jsval
  o_total :: jsval
  o_order_date :: nat

record cart_row =
  c_id :: nat
  c_username :: jsval
  c_item_id :: jsval
  c_item_name :: jsval
  c_quantity :: jsval
  c_price :: jsval
  c_added_date :: nat

text \<open>A table: its definition, its rows in insertion order, and the largest rowid it
  has ever handed out (the \<^verbatim>\<open>sqlite_sequence\<close> entry of AUTOINCREMENT). In the
  store a table that does not exist is \<open>None\<close>.\<close>

record 'r table =
  defn :: tabledef
  rows :: "'r list"
  seq :: nat

record db =
  users :: "user_row table option"
  orders :: "order_row table option"
  cart_history :: "cart_row table option"

text \<open>The repository has the server twice: \<^verbatim>\<open>server.js\<close>, and a second file with
  the same routes, a \<^verbatim>\<open>/health\<close> route and callbacks that log the errors of the
  cart-history inserts and of the queries of \<^verbatim>\<open>/admin/details\<close>. Where the two
  differ in what they do, the model follows the one that is deployed.\<close>

datatype source_file = Server_js | Health_server

text \<open>The setting of a request: which file is deployed, and what the program does not
  decide. That is whether the statement that the request issues as its \<open>i\<close>-th fails for
  a reason of the engine's own (I/O, a lock, a closed handle), what
  \<^verbatim>\<open>CURRENT_TIMESTAMP\<close> is when it runs, and in which order the engine runs
  statements that were queued together: at its \<open>k\<close>-th choice it takes the pending
  statement of position \<open>pick k\<close>, counted round the queue.\<close>

record env =
  deployed :: source_file
  io_error :: "nat \<Rightarrow> bool"
  clock :: "nat \<Rightarrow> nat"
  pick :: "nat \<Rightarrow> nat"

definition is_null :: "jsval \<Rightarrow> bool" where
  "is_null v = (v = JNull \<or> v = JUndefined)"

text \<open>The values that a column of a type stores as they are bound: NULL, a string in a
  TEXT column, a number in an INTEGER or REAL column. (No statement binds a value to a
  DATETIME column.)\<close>

fun of_kind :: "sqltype \<Rightarrow> jsval \<Rightarrow> bool" where
  "of_kind TEXT v = (case v of JStr s \<Rightarrow> True | _ \<Rightarrow> is_null v)"
| "of_kind INTEGER v = (case v of JNum n \<Rightarrow> True | _ \<Rightarrow> is_null v)"
| "of_kind REAL v = (case v of JNum n \<Rightarrow> True | _ \<Rightarrow> is_null v)"
| "of_kind DATETIME v = is_null v"

text \<open>What a column of a type stores, and gives back, for a value bound to it. A value
  of the column's kind is stored as it is. A value of another kind the engine converts to
  the affinity of the column (the number 5 bound to a TEXT column is stored as the text
  \<^verbatim>\<open>'5'\<close>, the text \<^verbatim>\<open>'7'\<close> bound to an INTEGER column as the number 7):
  the result depends on the type and the value only, and is left open here.\<close>

definition stored :: "sqltype \<Rightarrow> jsval \<Rightarrow> jsval" where
  "stored ty v = (if of_kind ty v then v else (undefined :: sqltype \<Rightarrow> jsval \<Rightarrow> jsval) ty v)"

text \<open>SQL's \<^verbatim>\<open>=\<close> between two cells: never true of NULL, and equality otherwise.
  A parameter is compared as the cell that the column would store for it; a string
  parameter against a TEXT column is compared as it is.\<close>

definition sql_eq :: "jsval \<Rightarrow> jsval \<Rightarrow> bool" where
  "sql_eq a b = (\<not> is_null a \<and> \<not> is_null b \<and> a = b)"

definition has_con :: "tabledef \<Rightarrow> string \<Rightarrow> colcon \<Rightarrow> bool" where
  "has_con td c k =
     (case map_of (columns td) c of None \<Rightarrow> False | Some (ty, cons) \<Rightarrow> k \<in> set cons)"

definition not_null_ok :: "tabledef \<Rightarrow> (string \<times> jsval) list \<Rightarrow> bool" where
  "not_null_ok td binds = list_all (\<lambda>(c, v). \<not> (has_con td c NOT_NULL \<and> is_null v)) binds"

text \<open>The cell of column \<open>c\<close> for a bound value, in a table of definition \<open>td\<close>. The
  rows are records of the columns of the program's tables; the type of a column is read
  from the definition of the table at hand.\<close>

definition cell :: "tabledef \<Rightarrow> string \<Rightarrow> jsval \<Rightarrow> jsval" where
  "cell td c v = (case map_of (columns td) c of None \<Rightarrow> v | Some (ty, cons) \<Rightarrow> stored ty v)"

definition next_id :: "('r \<Rightarrow> nat) \<Rightarrow> 'r table \<Rightarrow> nat" where
  "next_id rowid t = Suc (fold max (map rowid (rows t)) (seq t))"

text \<open>\<^verbatim>\<open>CREATE TABLE\<close>, with or without \<^verbatim>\<open>IF NOT EXISTS\<close>: creating a table
  that exists is an error (the flag is false) unless the clause is there, and either way
  the table that exists is left as it is.\<close>

definition db_run_create :: "bool \<Rightarrow> tabledef \<Rightarrow> 'r table option \<Rightarrow> bool \<times> 'r table option" where
  "db_run_create if_not_exists td t =
     (case t of
        None \<Rightarrow> (True, Some \<lparr>defn = td, rows = [], seq = 0\<rparr>)
      | Some t' \<Rightarrow> (if_not_exists, Some t'))"

text \<open>The statements of the handlers, with their bound parameters:
  \<^item> \<^verbatim>\<open>INSERT INTO users (username, password) VALUES (?, ?)\<close>
  \<^item> \<^verbatim>\<open>INSERT INTO orders (username, items, total) VALUES (?, ?, ?)\<close>
  \<^item> \<^verbatim>\<open>INSERT INTO cart_history (username, item_id, item_name, quantity, price) VALUES (?, ?, ?, ?, ?)\<close>
  \<^item> \<^verbatim>\<open>SELECT * FROM users WHERE username = ?\<close>
  \<^item> \<^verbatim>\<open>SELECT * FROM orders WHERE username = ? ORDER BY order_date DESC\<close>
  \<^item> \<^verbatim>\<open>SELECT * FROM cart_history WHERE username = ? ORDER BY added_date DESC\<close>
  \<^item> the three \<^verbatim>\<open>COUNT(*)\<close> of \<^verbatim>\<open>/admin\<close>, one statement
  \<^item> \<^verbatim>\<open>SELECT * FROM users\<close>, \<^verbatim>\<open>SELECT * FROM orders\<close>, \<^verbatim>\<open>SELECT * FROM cart_history\<close>\<close>

datatype stmt =
    INSERT_users jsval jsval
  | INSERT_orders jsval jsval jsval
  | INSERT_cart_history jsval jsval jsval jsval jsval
  | SELECT_user jsval
  | SELECT_orders jsval
  | SELECT_cart_history jsval
  | SELECT_counts
  | SELECT_all_users
  | SELECT_all_orders
  | SELECT_all_cart_history

text \<open>\<^verbatim>\<open>db.run\<close> of an insert: \<open>None\<close> is the callback's \<^verbatim>\<open>err\<close>, \<open>Some i\<close> is
  \<^verbatim>\<open>this.lastID\<close>. The insert fails when the engine fails, when the table does not
  exist, when a NOT NULL column would get NULL (a parameter bound to null or undefined)
  and when a UNIQUE column would get a value it already holds; a failed insert leaves
  the store as it was. The new row holds, column by column, what the column stores for
  the bound value.\<close>

fun db_run :: "bool \<Rightarrow> nat \<Rightarrow> stmt \<Rightarrow> db \<Rightarrow> nat option \<times> db" where
  "db_run io now (INSERT_users username password) d =
     (case users d of
        None \<Rightarrow> (None, d)
      | Some t \<Rightarrow>
          if io \<or> \<not> not_null_ok (defn t) [(''username'', username), (''password'', password)]
             \<or> (has_con (defn t) ''username'' UNIQUE
                 \<and> list_ex (\<lambda>r. sql_eq (u_username r) (cell (defn t) ''username'' username))
                      (rows t))
          then (None, d)
          else (let i = next_id u_id t in
                (Some i,
                 d\<lparr>users := Some (t\<lparr>rows := rows t @
                       [\<lparr>u_id = i, u_username = cell (defn t) ''username'' username,
                         u_password = cell (defn t) ''password'' password,
                         u_created_at = now\<rparr>],
                     seq := i\<rparr>)\<rparr>)))"
| "db_run io now (INSERT_orders username items total') d =
     (case orders d of
        None \<Rightarrow> (None, d)
      | Some t \<Rightarrow>
          if io \<or> \<not> not_null_ok (defn t)
                      [(''username'', username), (''items'', items), (''total'', total')]
          then (None, d)
          else (let i = next_id o_id t in
                (Some i,
                 d\<lparr>orders := Some (t\<lparr>rows := rows t @
                       [\<lparr>o_id = i, o_username = cell (defn t) ''username'' username,
                         o_items = cell (defn t) ''items'' items,
                         o_total = cell (defn t) ''total'' total', o_order_date = now\<rparr>],
                     seq := i\<rparr>)\<rparr>)))"
| "db_run io now (INSERT_cart_history username item_id item_name quantity price) d =
     (case cart_history d of
        None \<Rightarrow> (None, d)
      | Some t \<Rightarrow>
          if io \<or> \<not> not_null_ok (defn t)
                      [(''username'', username), (''item_id'', item_id),
                       (''item_name'', item_name), (''quantity'', quantity), (''price'', price)]
          then (None, d)
          else (let i = next_id c_id t in
                (Some i,
                 d\<lparr>cart_history := Some (t\<lparr>rows := rows t @
                       [\<lparr>c_id = i, c_username = cell (defn t) ''username'' username,
                         c_item_id = cell (defn t) ''item_id'' item_id,
                         c_item_name = cell (defn t) ''item_name'' item_name,
                         c_quantity = cell (defn t) ''quantity'' quantity,
                         c_price = cell (defn t) ''price'' price, c_added_date = now\<rparr>],
                     seq := i\<rparr>)\<rparr>)))"
| "db_run io now s d = (None, d)"

text \<open>\<^verbatim>\<open>ORDER BY k DESC\<close>: the rows with the larger key first. SQL leaves the order
  of rows with equal keys open; here they keep their table order.\<close>

definition order_by_desc :: "('r \<Rightarrow> nat) \<Rightarrow> 'r list \<Rightarrow> 'r list" where
  "order_by_desc k rs = rev (sort_key k (rev rs))"

text \<open>\<^verbatim>\<open>db.get\<close> and \<^verbatim>\<open>db.all\<close>: \<open>None\<close> is the callback's \<^verbatim>\<open>err\<close>. A query
  fails when the engine fails or the table does not exist; \<^verbatim>\<open>db.get\<close> gives the
  first matching row, or undefined (the inner \<open>None\<close>) when there is none.\<close>

definition db_get_user :: "bool \<Rightarrow> jsval \<Rightarrow> db \<Rightarrow> user_row option option" where
  "db_get_user io username d =
     (case users d of
        None \<Rightarrow> None
      | Some t \<Rightarrow> if io then None
                  else Some (find (\<lambda>r. sql_eq (u_username r) (cell (defn t) ''username'' username))
                               (rows t)))"

definition db_all_orders :: "bool \<Rightarrow> jsval \<Rightarrow> db \<Rightarrow> order_row list option" where
  "db_all_orders io username d =
     (case orders d of
        None \<Rightarrow> None
      | Some t \<Rightarrow> if io then None
                  else Some (order_by_desc o_order_date
                               (filter (\<lambda>r. sql_eq (o_username r) username) (rows t))))"

definition db_all_cart_history :: "bool \<Rightarrow> jsval \<Rightarrow> db \<Rightarrow> cart_row list option" where
  "db_all_cart_history io username d =
     (case cart_history d of
        None \<Rightarrow> None
      | Some t \<Rightarrow> if io then None
                  else Some (order_by_desc c_added_date
                               (filter (\<lambda>r. sql_eq (c_username r) username) (rows t))))"

definition db_all_counts :: "bool \<Rightarrow> db \<Rightarrow> (string \<times> nat) list option" where
  "db_all_counts io d =
     (case (users d, orders d, cart_history d) of
        (Some u, Some o0, Some c) \<Rightarrow>
          if io then None
          else Some [(''users'', length (rows u)), (''orders'', length (rows o0)),
                     (''cart_history'', length (rows c))]
      | _ \<Rightarrow> None)"

definition db_all_rows :: "bool \<Rightarrow> 'r table option \<Rightarrow> 'r list option" where
  "db_all_rows io t = (case t of None \<Rightarrow> None | Some t' \<Rightarrow> if io then None else Some (rows t'))"

section \<open>Start-up\<close>

text \<open>The callback of \<^verbatim>\<open>new sqlite3.Database(...)\<close>: when the store cannot be
  opened the error is logged and nothing is created; otherwise the three
  \<^verbatim>\<open>CREATE TABLE IF NOT EXISTS\<close> statements run. None of them has a callback, so a
  statement that fails raises an error event that nothing handles: the flag of the
  result says that none did.\<close>

definition create_tables :: "db \<Rightarrow> bool \<times> db" where
  "create_tables d =
     (let (ok_users, u) = db_run_create True users_def (users d);
          (ok_orders, o0) = db_run_create True orders_def (orders d);
          (ok_cart, c) = db_run_create True cart_history_def (cart_history d)
      in (ok_users \<and> ok_orders \<and> ok_cart, d\<lparr>users := u, orders := o0, cart_history := c\<rparr>))"

definition open_database :: "bool \<Rightarrow> db \<Rightarrow> bool \<times> db" where
  "open_database err d = (if err then (True, d) else create_tables d)"

section \<open>The route handlers\<close>

text \<open>What a handler sends: \<^verbatim>\<open>res.status(c).json({ error })\<close>, the three success
  objects, the row arrays, the pages of the admin routes (as the data they render), the
  404 of a path that has no route, or nothing at all when an exception escapes a
  callback.\<close>

datatype response =
    Json_error nat string
  | Json_login string jsval
  | Json_order string nat jsval
  | Json_orders "order_row list"
  | Json_cart_history "cart_row list"
  | Send_error nat string
  | Html_admin "(string \<times> nat) list"
  | Html_details "user_row list" "order_row list" "cart_row list"
  | Json_health
  | File_index
  | Not_found
  | No_response

text \<open>A handler takes the setting, its input and the store, and gives the response, the
  store once the statements of the request have run, and the statements it issued, in
  the order of issue. Statements are numbered from 0 within the request. One request is
  followed at a time: other requests do not run in between.\<close>

text \<open>\<^verbatim>\<open>app.post('/api/login', ...)\<close>\<close>

definition login :: "env \<Rightarrow> (string \<times> jsval) list \<Rightarrow> db \<Rightarrow> response \<times> db \<times> stmt list" where
  "login e body d =
     (let username = field body ''username''; password = field body ''password'' in
      if \<not> truthy username \<or> \<not> truthy password
      then (Json_error 400 ''Username and password are required'', d, [])
      else
        (case db_get_user (io_error e 0) username d of
           None \<Rightarrow> (Json_error 500 ''Database error'', d, [SELECT_user username])
         | Some (Some row) \<Rightarrow>
             (Json_login ''Login successful'' username, d, [SELECT_user username])
         | Some None \<Rightarrow>
             (case db_run (io_error e 1) (clock e 1) (INSERT_users username password) d of
                (None, d') \<Rightarrow>
                  (Json_error 500 ''Failed to create user'', d',
                   [SELECT_user username, INSERT_users username password])
              | (Some lastID, d') \<Rightarrow>
                  (Json_login ''User created and login successful'' username, d',
                   [SELECT_user username, INSERT_users username password]))))"

text \<open>\<^verbatim>\<open>items.forEach(item => { db.run('INSERT INTO cart_history ...', [username,
  item.id, item.name, item.quantity, item.price], ...) })\<close>. The loop itself only reads the
  properties and queues one statement per item: the result is the parameter lists of the
  statements it queued, and a flag that is false when reading a property threw, which
  ends the loop.\<close>

type_synonym cart_params = "jsval \<times> jsval \<times> jsval \<times> jsval \<times> jsval"

fun items_forEach :: "jsval \<Rightarrow> jsval list \<Rightarrow> bool \<times> cart_params list" where
  "items_forEach username [] = (True, [])"
| "items_forEach username (item # rest) =
     (case (get_prop item ''id'', get_prop item ''name'',
            get_prop item ''quantity'', get_prop item ''price'') of
        (Some item_id, Some item_name, Some quantity, Some price) \<Rightarrow>
          (let (ok, ps) = items_forEach username rest
           in (ok, (username, item_id, item_name, quantity, price) # ps))
      | _ \<Rightarrow> (False, []))"

definition insert_cart :: "cart_params \<Rightarrow> stmt" where
  "insert_cart ps =
     (case ps of (username, item_id, item_name, quantity, price) \<Rightarrow>
        INSERT_cart_history username item_id item_name quantity price)"

definition remove_nth :: "nat \<Rightarrow> 'a list \<Rightarrow> 'a list" where
  "remove_nth j xs = take j xs @ drop (Suc j) xs"

text \<open>The queued inserts run after the callback that queued them has returned, each with
  the number it was issued under. Nothing serialises them (there is no
  \<^verbatim>\<open>db.serialize\<close>), so the engine runs them in an order of its own. The result of
  an insert is looked at only to log it, in the file that passes a callback; in
  \<^verbatim>\<open>server.js\<close> the insert has no callback, a failure is an error event that
  nothing handles, and the process ends with the statements that have not run yet.\<close>

function run_queued :: "env \<Rightarrow> nat \<Rightarrow> (nat \<times> cart_params) list \<Rightarrow> db \<Rightarrow> db" where
  "run_queued e k pending d =
     (if pending = [] then d
      else
        (let j = pick e k mod length pending;
             i = fst (pending ! j);
             r = db_run (io_error e i) (clock e i) (insert_cart (snd (pending ! j))) d
         in if fst r = None \<and> deployed e = Server_js then snd r
            else run_queued e (Suc k) (remove_nth j pending) (snd r)))"
  by pat_completeness auto
termination
proof -
  have shorter: "length (remove_nth (n mod length xs) xs) < length xs"
    if "xs \<noteq> []" for n and xs :: "'a list"
  proof -
    from that have "n mod length xs < length xs" by simp
    then show ?thesis by (simp add: remove_nth_def)
  qed
  show ?thesis
    by (relation "measure (\<lambda>(e, k, pending, d). length pending)") (auto simp: shorter)
qed

text \<open>\<^verbatim>\<open>app.post('/api/order', ...)\<close>. A truthy \<^verbatim>\<open>items\<close> that is not an array
  has no \<^verbatim>\<open>forEach\<close>: the call throws inside the callback of the insert, after the
  order row is written and before any response, and so does the reading of a property of
  an item that is null; the exception ends the process before a queued statement runs.
  Otherwise the response is sent, and the queued inserts run.\<close>

definition place_order :: "env \<Rightarrow> (string \<times> jsval) list \<Rightarrow> db \<Rightarrow> response \<times> db \<times> stmt list" where
  "place_order e body d =
     (let username = field body ''username''; items = field body ''items'';
          total' = field body ''total'' in
      if \<not> truthy username \<or> \<not> truthy items \<or> \<not> truthy total'
      then (Json_error 400 ''Missing required fields'', d, [])
      else
        (let itemsJson = JSON_stringify items;
             s = INSERT_orders username itemsJson total' in
         case db_run (io_error e 0) (clock e 0) s d of
           (None, d') \<Rightarrow> (Json_error 500 ''Failed to place order'', d', [s])
         | (Some lastID, d') \<Rightarrow>
             (case items of
                JArr xs \<Rightarrow>
                  (case items_forEach username xs of
                     (True, ps) \<Rightarrow>
                       (Json_order ''Order placed successfully'' lastID total',
                        run_queued e 0 (zip [1..<Suc (length ps)] ps) d',
                        s # map insert_cart ps)
                   | (False, ps) \<Rightarrow> (No_response, d', s # map insert_cart ps))
              | _ \<Rightarrow> (No_response, d', [s]))))"

text \<open>\<^verbatim>\<open>app.get('/api/orders/:username', ...)\<close> and
  \<^verbatim>\<open>app.get('/api/cart-history/:username', ...)\<close>: the path parameter is a string.\<close>

definition list_orders :: "env \<Rightarrow> string \<Rightarrow> db \<Rightarrow> response \<times> db \<times> stmt list" where
  "list_orders e username d =
     (case db_all_orders (io_error e 0) (JStr username) d of
        None \<Rightarrow> (Json_error 500 ''Database error'', d, [SELECT_orders (JStr username)])
      | Some rs \<Rightarrow> (Json_orders rs, d, [SELECT_orders (JStr username)]))"

definition list_cart_history :: "env \<Rightarrow> string \<Rightarrow> db \<Rightarrow> response \<times> db \<times> stmt list" where
  "list_cart_history e username d =
     (case db_all_cart_history (io_error e 0) (JStr username) d of
        None \<Rightarrow> (Json_error 500 ''Database error'', d, [SELECT_cart_history (JStr username)])
      | Some rs \<Rightarrow> (Json_cart_history rs, d, [SELECT_cart_history (JStr username)]))"

text \<open>\<^verbatim>\<open>app.get('/admin', ...)\<close>: the three counts, or status 500 with a text that
  starts \<^verbatim>\<open>Database error: \<close>.\<close>

definition admin :: "env \<Rightarrow> db \<Rightarrow> response \<times> db \<times> stmt list" where
  "admin e d =
     (case db_all_counts (io_error e 0) d of
        None \<Rightarrow> (Send_error 500 ''Database error: '', d, [SELECT_counts])
      | Some counts \<Rightarrow> (Html_admin counts, d, [SELECT_counts]))"

text \<open>\<^verbatim>\<open>app.get('/admin/details', ...)\<close>: three nested queries, each issued
  whatever became of the one before. The file with the health route takes a query that
  fails as no rows; in \<^verbatim>\<open>server.js\<close> the rows are then undefined, and reading their
  length for the page throws, so that nothing is sent. The response is the data the page
  is rendered from; the rendering itself is not part of the model.\<close>

definition admin_details :: "env \<Rightarrow> db \<Rightarrow> response \<times> db \<times> stmt list" where
  "admin_details e d =
     (let us = db_all_rows (io_error e 0) (users d);
          os = db_all_rows (io_error e 1) (orders d);
          cs = db_all_rows (io_error e 2) (cart_history d);
          issued = [SELECT_all_users, SELECT_all_orders, SELECT_all_cart_history]
      in case deployed e of
           Health_server \<Rightarrow>
             (Html_details (case us of None \<Rightarrow> [] | Some rs \<Rightarrow> rs)
                           (case os of None \<Rightarrow> [] | Some rs \<Rightarrow> rs)
                           (case cs of None \<Rightarrow> [] | Some rs \<Rightarrow> rs), d, issued)
         | Server_js \<Rightarrow>
             (case (us, os, cs) of
                (Some urs, Some ors, Some crs) \<Rightarrow> (Html_details urs ors crs, d, issued)
              | _ \<Rightarrow> (No_response, d, issued)))"

text \<open>The routes: the two posts, the two queries, the two admin pages, \<^verbatim>\<open>/health\<close>
  and \<^verbatim>\<open>/\<close>. The last two do not touch the store; \<^verbatim>\<open>server.js\<close> has no
  \<^verbatim>\<open>/health\<close> route, and answers 404 there.\<close>

datatype request =
    POST_api_login "(string \<times> jsval) list"
  | POST_api_order "(string \<times> jsval) list"
  | GET_api_orders string
  | GET_api_cart_history string
  | GET_admin
  | GET_admin_details
  | GET_health
  | GET_root

fun handle :: "env \<Rightarrow> request \<Rightarrow> db \<Rightarrow> response \<times> db \<times> stmt list" where
  "handle e (POST_api_login body) d = login e body d"
| "handle e (POST_api_order body) d = place_order e body d"
| "handle e (GET_api_orders username) d = list_orders e username d"
| "handle e (GET_api_cart_history username) d = list_cart_history e username d"
| "handle e GET_admin d = admin e d"
| "handle e GET_admin_details d = admin_details e d"
| "handle e GET_health d =
     (case deployed e of Health_server \<Rightarrow> (Json_health, d, []) | Server_js \<Rightarrow> (Not_found, d, []))"
| "handle e GET_root d = (File_index, d, [])"

section \<open>Notions for stating the properties\<close>

text \<open>The specification's input constraint of \<^verbatim>\<open>placeOrder\<close>, as its words have it:
  the username a non-empty string, the items a non-empty sequence of line items (objects
  with an id, a name, a quantity and a price), the total a positive number.\<close>

definition spec_line_item :: "jsval \<Rightarrow> bool" where
  "spec_line_item v =
     (case v of
        JObj kvs \<Rightarrow> list_all (\<lambda>k. \<not> is_null (field kvs k)) [''id'', ''name'', ''quantity'', ''price'']
      | _ \<Rightarrow> False)"

definition spec_order_constraint :: "jsval \<Rightarrow> jsval \<Rightarrow> jsval \<Rightarrow> bool" where
  "spec_order_constraint username items total' =
     ((case username of JStr s \<Rightarrow> s \<noteq> [] | _ \<Rightarrow> False) \<and>
      (case items of JArr xs \<Rightarrow> xs \<noteq> [] \<and> list_all spec_line_item xs | _ \<Rightarrow> False) \<and>
      (case total' of JNum n \<Rightarrow> 0 < n | _ \<Rightarrow> False))"

text \<open>A field that is absent, or the empty string.\<close>

definition spec_empty_or_absent :: "jsval \<Rightarrow> bool" where
  "spec_empty_or_absent v = (v = JUndefined \<or> v = JStr [])"

text \<open>What a cart-history row carries besides its identifier and its date, and what the
  loop binds for an item: the username and the item's id, name, quantity and price.\<close>

definition item_prop :: "jsval \<Rightarrow> string \<Rightarrow> jsval" where
  "item_prop item k = (case get_prop item k of None \<Rightarrow> JUndefined | Some v \<Rightarrow> v)"

definition cart_payload :: "cart_row \<Rightarrow> jsval \<times> jsval \<times> jsval \<times> jsval \<times> jsval" where
  "cart_payload r = (c_username r, c_item_id r, c_item_name r, c_quantity r, c_price r)"

definition item_payload :: "jsval \<Rightarrow> jsval \<Rightarrow> jsval \<times> jsval \<times> jsval \<times> jsval \<times> jsval" where
  "item_payload username item =
     (username, item_prop item ''id'', item_prop item ''name'',
      item_prop item ''quantity'', item_prop item ''price'')"





text \<open>A table is kept: if it was there it still is, with its definition, and its old
  rows are the first rows of the new table, each as it was.\<close>

definition kept :: "'r table option \<Rightarrow> 'r table option \<Rightarrow> bool" where
  "kept t t' =
     (case t of
        None \<Rightarrow> True
      | Some a \<Rightarrow> (case t' of None \<Rightarrow> False | Some b \<Rightarrow> defn b = defn a \<and> prefix (rows a) (rows b)))"

text \<open>Descending order of a list of keys.\<close>

definition descending :: "nat list \<Rightarrow> bool" where
  "descending ks = sorted_wrt (\<lambda>a b. b \<le> a) ks"

text \<open>The scenario of the specification: the file with the health route, on an engine
  that does not fail, runs queued statements in the order of issue and has a clock that
  ticks at every statement; a store that start-up has just created; alice, and an order
  of two pizzas.\<close>

definition working_env :: env where
  "working_env =
     \<lparr>deployed = Health_server, io_error = (\<lambda>i. False), clock = (\<lambda>i. i), pick = (\<lambda>k. 0)\<rparr>"

definition empty_store :: db where
  "empty_store = \<lparr>users = None, orders = None, cart_history = None\<rparr>"

definition fresh_store :: db where
  "fresh_store = snd (create_tables empty_store)"


definition pizza :: jsval where
  "pizza = JObj [(''id'', JNum 1), (''name'', JStr ''Pizza''), (''quantity'', JNum 2),
                 (''price'', JNum 150)]"

definition pizza_order :: "(string \<times> jsval) list" where
  "pizza_order = [(''username'', JStr ''alice''), (''items'', JArr [pizza]), (''total'', JNum 300)]"

definition pizza_outcome :: "response \<times> db \<times> stmt list" where
  "pizza_outcome = place_order working_env pizza_order fresh_store"

text \<open>An order of three items: the pizzas, a tea without an id, and a cake.\<close>

definition tea_without_id :: jsval where
  "tea_without_id = JObj [(''name'', JStr ''Tea''), (''quantity'', JNum 1), (''price'', JNum 20)]"

definition cake :: jsval where
  "cake = JObj [(''id'', JNum 3), (''name'', JStr ''Cake''), (''quantity'', JNum 1),
                (''price'', JNum 90)]"

definition party_order :: "(string \<times> jsval) list" where
  "party_order =
     [(''username'', JStr ''alice''), (''items'', JArr [pizza, tea_without_id, cake]),
      (''total'', JNum 410)]"

definition party_outcome :: "response \<times> db \<times> stmt list" where
  "party_outcome = place_order working_env party_order fresh_store"

text \<open>An order of the pizzas and the cake, every item with all its values.\<close>

definition pizza_cake_order :: "(string \<times> jsval) list" where
  "pizza_cake_order =
     [(''username'', JStr ''alice''), (''items'', JArr [pizza, cake]), (''total'', JNum 390)]"

text \<open>The same engine running the queued statement that was issued last first, and
  \<^verbatim>\<open>server.js\<close> on the engine of the scenario.\<close>

definition last_first_env :: env where
  "last_first_env = working_env\<lparr>pick := (\<lambda>k. 2 - k)\<rparr>"

definition server_js_env :: env where
  "server_js_env = working_env\<lparr>deployed := Server_js\<rparr>"


text \<open>A store with a history: two orders of alice around one of bob, and two
  cart-history rows of alice.\<close>

definition history_orders :: "order_row table" where
  "history_orders =
     \<lparr>defn = orders_def,
      rows = [\<lparr>o_id = 1, o_username = JStr ''alice'', o_items = JStr ''[]'',
                o_total = JNum 300, o_order_date = 5\<rparr>,
              \<lparr>o_id = 2, o_username = JStr ''bob'', o_items = JStr ''[]'',
                o_total = JNum 40, o_order_date = 7\<rparr>,
              \<lparr>o_id = 3, o_username = JStr ''alice'', o_items = JStr ''[]'',
                o_total = JNum 150, o_order_date = 9\<rparr>],
      seq = 3\<rparr>"

definition history_cart :: "cart_row table" where
  "history_cart =
     \<lparr>defn = cart_history_def,
      rows = [\<lparr>c_id = 1, c_username = JStr ''alice'', c_item_id = JNum 1,
                c_item_name = JStr ''Pizza'', c_quantity = JNum 2, c_price = JNum 150,
                c_added_date = 5\<rparr>,
              \<lparr>c_id = 2, c_username = JStr ''alice'', c_item_id = JNum 2,
                c_item_name = JStr ''Tea'', c_quantity = JNum 1, c_price = JNum 20,
                c_added_date = 9\<rparr>],
      seq = 2\<rparr>"

definition history_store :: db where
  "history_store =
     \<lparr>users = Some \<lparr>defn = users_def, rows = [], seq = 0\<rparr>,
      orders = Some history_orders, cart_history = Some history_cart\<rparr>"

text \<open>All three tables are kept.\<close>

definition all_kept :: "db \<Rightarrow> db \<Rightarrow> bool" where
  "all_kept d d' =
     (kept (users d) (users d') \<and> kept (orders d) (orders d')
      \<and> kept (cart_history d) (cart_history d'))"

section \<open>Validation, registration and storage errors\<close>



lemma login_falsy:
  "\<not> truthy (field body ''username'') \<or> \<not> truthy (field body ''password'')
   \<Longrightarrow> login e body d = (Json_error 400 ''Username and password are required'', d, [])"
  by (simp add: login_def Let_def)

lemma db_run_None: "fst (db_run io now s d) = None \<Longrightarrow> snd (db_run io now s d) = d"
  by (cases s) (auto simp: Let_def split: option.splits if_splits)

lemma place_order_falsy:
  "\<not> truthy (field body ''username'') \<or> \<not> truthy (field body ''items'')
     \<or> \<not> truthy (field body ''total'')
   \<Longrightarrow> place_order e body d = (Json_error 400 ''Missing required fields'', d, [])"
  by (simp add: place_order_def Let_def)

lemma place_order_truthy_not_400:
  assumes "truthy (field body ''username'')" "truthy (field body ''items'')"
    "truthy (field body ''total'')"
  shows "fst (place_order e body d) \<noteq> Json_error 400 msg"
    and "\<exists>tr. snd (snd (place_order e body d)) =
           INSERT_orders (field body ''username'') (JSON_stringify (field body ''items''))
             (field body ''total'') # tr"
  using assms
  by (auto simp: place_order_def Let_def split: prod.splits option.splits jsval.splits bool.splits)

lemma spec_order_constraint_truthy:
  "spec_order_constraint u i t \<Longrightarrow> truthy u \<and> truthy i \<and> truthy t"
  by (auto simp: spec_order_constraint_def split: jsval.splits)

text \<open>Claim C1, as the code has it. \<^verbatim>\<open>placeOrder\<close> answers 400 exactly when the
  username, the items or the total is falsy (absent, null, false, 0 or the empty string),
  and then with the missing-fields error, the store untouched and no statement issued.
  Every input that meets the specification's constraint passes the check, and the insert
  of the order is the first statement issued.\<close>

theorem place_order_validation:
  "((\<exists>msg. fst (place_order e body d) = Json_error 400 msg) \<longleftrightarrow>
      (\<not> truthy (field body ''username'') \<or> \<not> truthy (field body ''items'')
        \<or> \<not> truthy (field body ''total'')))
   \<and> (\<not> truthy (field body ''username'') \<or> \<not> truthy (field body ''items'')
        \<or> \<not> truthy (field body ''total'')
      \<longrightarrow> place_order e body d = (Json_error 400 ''Missing required fields'', d, []))
   \<and> (spec_order_constraint (field body ''username'') (field body ''items'') (field body ''total'')
      \<longrightarrow> (\<exists>tr. snd (snd (place_order e body d)) =
             INSERT_orders (field body ''username'') (JSON_stringify (field body ''items''))
               (field body ''total'') # tr))"
proof (intro conjI impI)
  show "(\<exists>msg. fst (place_order e body d) = Json_error 400 msg) \<longleftrightarrow>
      (\<not> truthy (field body ''username'') \<or> \<not> truthy (field body ''items'')
        \<or> \<not> truthy (field body ''total''))"
    using place_order_falsy [of body e d] place_order_truthy_not_400(1) [of body e d]
    by (metis fst_conv)
next
  assume "\<not> truthy (field body ''username'') \<or> \<not> truthy (field body ''items'')
        \<or> \<not> truthy (field body ''total'')"
  then show "place_order e body d = (Json_error 400 ''Missing required fields'', d, [])"
    by (rule place_order_falsy)
next
  assume "spec_order_constraint (field body ''username'') (field body ''items'') (field body ''total'')"
  then have "truthy (field body ''username'') \<and> truthy (field body ''items'')
      \<and> truthy (field body ''total'')"
    by (rule spec_order_constraint_truthy)
  then show "\<exists>tr. snd (snd (place_order e body d)) =
             INSERT_orders (field body ''username'') (JSON_stringify (field body ''items''))
               (field body ''total'') # tr"
    using place_order_truthy_not_400(2) by blast
qed

lemma fresh_store_eq:
  "fresh_store = \<lparr>users = Some \<lparr>defn = users_def, rows = [], seq = 0\<rparr>,
                  orders = Some \<lparr>defn = orders_def, rows = [], seq = 0\<rparr>,
                  cart_history = Some \<lparr>defn = cart_history_def, rows = [], seq = 0\<rparr>\<rparr>"
  by (simp add: fresh_store_def empty_store_def create_tables_def db_run_create_def)

text \<open>Claim C1 as stated fails: an order with an empty list of items violates the
  specification's constraint, and it is accepted.\<close>

theorem place_order_empty_items_counterexample:
  "\<not> spec_order_constraint (JStr ''alice'') (JArr []) (JNum 300)
   \<and> fst (place_order working_env
            [(''username'', JStr ''alice''), (''items'', JArr []), (''total'', JNum 300)]
            fresh_store)
       = Json_order ''Order placed successfully'' 1 (JNum 300)"
  by (simp add: spec_order_constraint_def place_order_def field_def fresh_store_eq working_env_def
      JSON_stringify_def not_null_ok_def has_con_def orders_def_def is_null_def next_id_def
      cell_def stored_def Let_def)

theorem place_order_validation_witness:
  "spec_order_constraint (field pizza_order ''username'') (field pizza_order ''items'')
       (field pizza_order ''total'')
   \<and> (\<exists>tr. snd (snd (place_order working_env pizza_order fresh_store)) =
         INSERT_orders (JStr ''alice'') (JSON_stringify (JArr [pizza])) (JNum 300) # tr)
   \<and> \<not> truthy (field [(''username'', JStr ''alice''), (''total'', JNum 300)] ''items'')
   \<and> place_order working_env [(''username'', JStr ''alice''), (''total'', JNum 300)] fresh_store
       = (Json_error 400 ''Missing required fields'', fresh_store, [])"
proof -
  have c: "spec_order_constraint (field pizza_order ''username'') (field pizza_order ''items'')
       (field pizza_order ''total'')"
    by (simp add: spec_order_constraint_def spec_line_item_def field_def pizza_order_def pizza_def
        is_null_def)
  have f: "\<not> truthy (field [(''username'', JStr ''alice''), (''total'', JNum 300)] ''items'')"
    by (simp add: field_def)
  have v: "field pizza_order ''username'' = JStr ''alice''" "field pizza_order ''items'' = JArr [pizza]"
    "field pizza_order ''total'' = JNum 300"
    by (simp_all add: field_def pizza_order_def)
  from place_order_validation [of working_env pizza_order fresh_store] c
  have "\<exists>tr. snd (snd (place_order working_env pizza_order fresh_store)) =
         INSERT_orders (JStr ''alice'') (JSON_stringify (JArr [pizza])) (JNum 300) # tr"
    by (simp add: v)
  moreover from place_order_validation
      [of working_env "[(''username'', JStr ''alice''), (''total'', JNum 300)]" fresh_store] f
  have "place_order working_env [(''username'', JStr ''alice''), (''total'', JNum 300)] fresh_store
       = (Json_error 400 ''Missing required fields'', fresh_store, [])"
    by blast
  ultimately show ?thesis using c f by blast
qed


text \<open>Claim C10. A request whose total is present and equal to 0 is rejected with the
  missing-fields error, whatever else it supplies: the check tests truthiness.\<close>

theorem place_order_total_zero:
  assumes "field body ''total'' = JNum 0"
  shows "place_order e body d = (Json_error 400 ''Missing required fields'', d, [])"
  using assms by (simp add: place_order_falsy)

theorem place_order_total_zero_witness:
  "field [(''username'', JStr ''alice''), (''items'', JArr [pizza]), (''total'', JNum 0)] ''total''
     = JNum 0
   \<and> truthy (JStr ''alice'') \<and> truthy (JArr [pizza])
   \<and> place_order working_env
        [(''username'', JStr ''alice''), (''items'', JArr [pizza]), (''total'', JNum 0)] fresh_store
       = (Json_error 400 ''Missing required fields'', fresh_store, [])"
proof -
  have t: "field [(''username'', JStr ''alice''), (''items'', JArr [pizza]), (''total'', JNum 0)]
             ''total'' = JNum 0"
    by (simp add: field_def)
  from place_order_total_zero [OF t] t show ?thesis by simp
qed

text \<open>Claim C6. When the username or the password is empty or absent,
  \<^verbatim>\<open>loginOrRegister\<close> answers 400, issues no statement (no lookup, no insert) and
  leaves the store as it was.\<close>

theorem login_validation:
  assumes "spec_empty_or_absent (field body ''username'') \<or> spec_empty_or_absent (field body ''password'')"
  shows "login e body d = (Json_error 400 ''Username and password are required'', d, [])"
proof -
  from assms have "\<not> truthy (field body ''username'') \<or> \<not> truthy (field body ''password'')"
    by (auto simp: spec_empty_or_absent_def)
  then show ?thesis by (rule login_falsy)
qed

theorem login_validation_witness:
  "spec_empty_or_absent (field [(''username'', JStr ''alice''), (''password'', JStr [])] ''password'')
   \<and> spec_empty_or_absent (field [(''password'', JStr ''x'')] ''username'')
   \<and> login working_env [(''username'', JStr ''alice''), (''password'', JStr [])] fresh_store
       = (Json_error 400 ''Username and password are required'', fresh_store, [])
   \<and> login working_env [(''password'', JStr ''x'')] fresh_store
       = (Json_error 400 ''Username and password are required'', fresh_store, [])"
proof -
  have h: "spec_empty_or_absent (field [(''username'', JStr ''alice''), (''password'', JStr [])] ''password'')"
    by (simp add: spec_empty_or_absent_def field_def)
  have g: "spec_empty_or_absent (field [(''password'', JStr ''x'')] ''username'')"
    by (simp add: spec_empty_or_absent_def field_def)
  from login_validation [OF disjI2, OF h] login_validation [OF disjI1, OF g] h g
  show ?thesis by simp
qed

text \<open>Claim C3. When the check passes and the insert of the order fails, the answer is
  the storage error 500, the insert of the order is the only statement issued, and the
  store is as it was: no cart-history row is written.\<close>

theorem place_order_insert_fails:
  assumes "truthy (field body ''username'')" "truthy (field body ''items'')"
    "truthy (field body ''total'')"
    and "fst (db_run (io_error e 0) (clock e 0)
           (INSERT_orders (field body ''username'') (JSON_stringify (field body ''items''))
              (field body ''total'')) d) = None"
  shows "place_order e body d =
           (Json_error 500 ''Failed to place order'', d,
            [INSERT_orders (field body ''username'') (JSON_stringify (field body ''items''))
               (field body ''total'')])"
proof -
  define s where "s = INSERT_orders (field body ''username'') (JSON_stringify (field body ''items''))
               (field body ''total'')"
  from assms(4) have "db_run (io_error e 0) (clock e 0) s d = (None, d)"
    using db_run_None [of "io_error e 0" "clock e 0" s d]
    by (simp add: s_def prod_eq_iff)
  with assms(1-3) show ?thesis
    by (simp add: place_order_def Let_def s_def del: db_run.simps)
qed

theorem place_order_insert_fails_witness:
  "truthy (field pizza_order ''username'') \<and> truthy (field pizza_order ''items'')
   \<and> truthy (field pizza_order ''total'')
   \<and> fst (db_run (io_error working_env 0) (clock working_env 0)
           (INSERT_orders (field pizza_order ''username'')
              (JSON_stringify (field pizza_order ''items'')) (field pizza_order ''total''))
           empty_store) = None
   \<and> place_order working_env pizza_order empty_store =
           (Json_error 500 ''Failed to place order'', empty_store,
            [INSERT_orders (field pizza_order ''username'')
               (JSON_stringify (field pizza_order ''items'')) (field pizza_order ''total'')])"
proof -
  have a: "truthy (field pizza_order ''username'')" "truthy (field pizza_order ''items'')"
    "truthy (field pizza_order ''total'')"
    by (simp_all add: field_def pizza_order_def)
  have b: "fst (db_run (io_error working_env 0) (clock working_env 0)
           (INSERT_orders (field pizza_order ''username'')
              (JSON_stringify (field pizza_order ''items'')) (field pizza_order ''total''))
           empty_store) = None"
    by (simp add: empty_store_def)
  from place_order_insert_fails [OF a b] a b show ?thesis by simp
qed





section \<open>Placing an order\<close>

declare db_run.simps [simp del]

declare run_queued.simps [simp del]















lemmas eval_defs = place_order_def field_def fresh_store_eq working_env_def
  JSON_stringify_def not_null_ok_def has_con_def orders_def_def cart_history_def_def
  is_null_def next_id_def cell_def stored_def Let_def db_run.simps run_queued.simps
  insert_cart_def remove_nth_def


lemmas item_defs = party_order_def pizza_cake_order_def pizza_order_def pizza_def
  tea_without_id_def cake_def item_prop_def item_payload_def cart_payload_def



lemma party_outcome_rows:
  "map_option (map cart_payload \<circ> rows) (cart_history (fst (snd party_outcome)))
     = Some [item_payload (JStr ''alice'') pizza, item_payload (JStr ''alice'') cake]"
  by (simp add: party_outcome_def eval_defs item_defs)

text \<open>The same order when the engine runs the statement issued last first: the row of
  the cake comes before the row of the pizzas.\<close>

lemma party_order_last_first:
  "map_option (map cart_payload \<circ> rows)
     (cart_history (fst (snd (place_order last_first_env party_order fresh_store))))
     = Some [item_payload (JStr ''alice'') cake, item_payload (JStr ''alice'') pizza]"
  by (simp add: last_first_env_def eval_defs item_defs)

text \<open>The same order in \<^verbatim>\<open>server.js\<close>: the refused insert of the tea ends the process,
  and the cake, whose insert would be accepted, leaves no row.\<close>

lemma party_order_server_js:
  "map_option (map cart_payload \<circ> rows)
     (cart_history (fst (snd (place_order server_js_env party_order fresh_store))))
     = Some [item_payload (JStr ''alice'') pizza]"
  by (simp add: server_js_env_def eval_defs item_defs)




section \<open>The queries\<close>

lemma mset_order_by_desc: "mset (order_by_desc k rs) = mset rs"
  by (simp add: order_by_desc_def)

lemma descending_order_by_desc: "descending (map k (order_by_desc k rs))"
proof -
  have "sorted (map k (sort_key k (rev rs)))"
    by (rule sorted_sort_key)
  then have "sorted_wrt (\<lambda>a b. b \<le> a) (rev (map k (sort_key k (rev rs))))"
    by (simp add: sorted_wrt_rev)
  then show ?thesis
    by (simp add: descending_def order_by_desc_def rev_map)
qed

lemma order_by_desc_Nil: "order_by_desc k [] = []"
  by (simp add: order_by_desc_def)

lemma sql_eq_JStr: "sql_eq a (JStr u) = (a = JStr u)"
  by (auto simp: sql_eq_def is_null_def)

text \<open>Claim C5. On a table that answers, \<^verbatim>\<open>listOrders\<close> returns exactly the order rows
  whose username is the one asked for (as a multiset: each such row once, no other row),
  in descending order of \<^verbatim>\<open>order_date\<close>, and \<^verbatim>\<open>listCartHistory\<close> does the same
  for the cart-history rows and \<^verbatim>\<open>added_date\<close>; when no row matches, the answer
  is the empty sequence, not an error. Neither changes the store, whatever happens.\<close>

theorem list_queries:
  "(orders d = Some t \<and> \<not> io_error e 0 \<longrightarrow>
      (\<exists>rs. list_orders e u d = (Json_orders rs, d, [SELECT_orders (JStr u)]) \<and>
            mset rs = mset (filter (\<lambda>r. o_username r = JStr u) (rows t)) \<and>
            descending (map o_order_date rs) \<and>
            ((\<forall>r \<in> set (rows t). o_username r \<noteq> JStr u) \<longrightarrow> rs = [])))
   \<and> (cart_history d = Some c \<and> \<not> io_error e 0 \<longrightarrow>
      (\<exists>rs. list_cart_history e u d = (Json_cart_history rs, d, [SELECT_cart_history (JStr u)]) \<and>
            mset rs = mset (filter (\<lambda>r. c_username r = JStr u) (rows c)) \<and>
            descending (map c_added_date rs) \<and>
            ((\<forall>r \<in> set (rows c). c_username r \<noteq> JStr u) \<longrightarrow> rs = [])))
   \<and> fst (snd (list_orders e u d)) = d
   \<and> fst (snd (list_cart_history e u d)) = d"
proof (intro conjI impI)
  assume a: "orders d = Some t \<and> \<not> io_error e 0"
  define rs where "rs = order_by_desc o_order_date (filter (\<lambda>r. o_username r = JStr u) (rows t))"
  have "list_orders e u d = (Json_orders rs, d, [SELECT_orders (JStr u)])"
    using a by (simp add: list_orders_def db_all_orders_def rs_def sql_eq_JStr)
  moreover have "mset rs = mset (filter (\<lambda>r. o_username r = JStr u) (rows t))"
    by (simp add: rs_def mset_order_by_desc)
  moreover have "descending (map o_order_date rs)"
    unfolding rs_def by (rule descending_order_by_desc)
  moreover have "(\<forall>r \<in> set (rows t). o_username r \<noteq> JStr u) \<longrightarrow> rs = []"
    by (auto simp: rs_def order_by_desc_Nil filter_empty_conv [THEN iffD2])
  ultimately show "\<exists>rs. list_orders e u d = (Json_orders rs, d, [SELECT_orders (JStr u)]) \<and>
            mset rs = mset (filter (\<lambda>r. o_username r = JStr u) (rows t)) \<and>
            descending (map o_order_date rs) \<and>
            ((\<forall>r \<in> set (rows t). o_username r \<noteq> JStr u) \<longrightarrow> rs = [])"
    by blast
next
  assume a: "cart_history d = Some c \<and> \<not> io_error e 0"
  define rs where "rs = order_by_desc c_added_date (filter (\<lambda>r. c_username r = JStr u) (rows c))"
  have "list_cart_history e u d = (Json_cart_history rs, d, [SELECT_cart_history (JStr u)])"
    using a by (simp add: list_cart_history_def db_all_cart_history_def rs_def sql_eq_JStr)
  moreover have "mset rs = mset (filter (\<lambda>r. c_username r = JStr u) (rows c))"
    by (simp add: rs_def mset_order_by_desc)
  moreover have "descending (map c_added_date rs)"
    unfolding rs_def by (rule descending_order_by_desc)
  moreover have "(\<forall>r \<in> set (rows c). c_username r \<noteq> JStr u) \<longrightarrow> rs = []"
    by (auto simp: rs_def order_by_desc_Nil filter_empty_conv [THEN iffD2])
  ultimately show "\<exists>rs. list_cart_history e u d =
              (Json_cart_history rs, d, [SELECT_cart_history (JStr u)]) \<and>
            mset rs = mset (filter (\<lambda>r. c_username r = JStr u) (rows c)) \<and>
            descending (map c_added_date rs) \<and>
            ((\<forall>r \<in> set (rows c). c_username r \<noteq> JStr u) \<longrightarrow> rs = [])"
    by blast
next
  show "fst (snd (list_orders e u d)) = d"
    by (simp add: list_orders_def split: option.splits)
next
  show "fst (snd (list_cart_history e u d)) = d"
    by (simp add: list_cart_history_def split: option.splits)
qed

theorem list_queries_witness:
  "orders history_store = Some history_orders \<and> cart_history history_store = Some history_cart
   \<and> \<not> io_error working_env 0
   \<and> list_orders working_env ''alice'' history_store =
       (Json_orders [\<lparr>o_id = 3, o_username = JStr ''alice'', o_items = JStr ''[]'',
                       o_total = JNum 150, o_order_date = 9\<rparr>,
                     \<lparr>o_id = 1, o_username = JStr ''alice'', o_items = JStr ''[]'',
                       o_total = JNum 300, o_order_date = 5\<rparr>],
        history_store, [SELECT_orders (JStr ''alice'')])
   \<and> (\<exists>rs. list_orders working_env ''alice'' history_store =
             (Json_orders rs, history_store, [SELECT_orders (JStr ''alice'')]) \<and>
           mset rs = mset (filter (\<lambda>r. o_username r = JStr ''alice'') (rows history_orders)) \<and>
           descending (map o_order_date rs))
   \<and> (\<exists>rs. list_cart_history working_env ''alice'' history_store =
             (Json_cart_history rs, history_store, [SELECT_cart_history (JStr ''alice'')]) \<and>
           mset rs = mset (filter (\<lambda>r. c_username r = JStr ''alice'') (rows history_cart)) \<and>
           descending (map c_added_date rs))
   \<and> list_orders working_env ''carol'' history_store =
       (Json_orders [], history_store, [SELECT_orders (JStr ''carol'')])"
proof -
  have h: "orders history_store = Some history_orders \<and> \<not> io_error working_env 0"
    "cart_history history_store = Some history_cart \<and> \<not> io_error working_env 0"
    by (simp_all add: history_store_def working_env_def)
  have none: "\<forall>r \<in> set (rows history_orders). o_username r \<noteq> JStr ''carol''"
    by (simp add: history_orders_def)
  have ev: "list_orders working_env ''alice'' history_store =
       (Json_orders [\<lparr>o_id = 3, o_username = JStr ''alice'', o_items = JStr ''[]'',
                       o_total = JNum 150, o_order_date = 9\<rparr>,
                     \<lparr>o_id = 1, o_username = JStr ''alice'', o_items = JStr ''[]'',
                       o_total = JNum 300, o_order_date = 5\<rparr>],
        history_store, [SELECT_orders (JStr ''alice'')])"
    by (simp add: list_orders_def db_all_orders_def history_store_def history_orders_def
        working_env_def order_by_desc_def sql_eq_def is_null_def)
  from list_queries [of history_store history_orders working_env "''alice''" history_cart]
    list_queries [of history_store history_orders working_env "''carol''" history_cart]
    h none ev
  show ?thesis by auto
qed

section \<open>Table creation\<close>

text \<open>Without the clause the second creation would be an error.\<close>

lemma db_run_create_twice: "db_run_create False td (Some t) = (False, Some t)"
  by (simp add: db_run_create_def)

text \<open>Claim C7. Table creation on a store that has the three tables raises no error and
  changes nothing; on any store it raises no error and leaves each table that exists
  as it is, definition and contents; and running it a second time raises no error and
  changes nothing, so twice is the same as once.\<close>

theorem create_tables_idempotent:
  "(users d = Some u \<and> orders d = Some o' \<and> cart_history d = Some c \<longrightarrow>
      create_tables d = (True, d))
   \<and> fst (create_tables d)
   \<and> create_tables (snd (create_tables d)) = (True, snd (create_tables d))
   \<and> (users d = Some u \<longrightarrow> users (snd (create_tables d)) = Some u)
   \<and> (orders d = Some o' \<longrightarrow> orders (snd (create_tables d)) = Some o')
   \<and> (cart_history d = Some c \<longrightarrow> cart_history (snd (create_tables d)) = Some c)"
  by (cases "users d"; cases "orders d"; cases "cart_history d")
    (simp_all add: create_tables_def db_run_create_def)


theorem create_tables_idempotent_witness:
  "users history_store = Some \<lparr>defn = users_def, rows = [], seq = 0\<rparr>
   \<and> orders history_store = Some history_orders
   \<and> cart_history history_store = Some history_cart
   \<and> create_tables history_store = (True, history_store)
   \<and> create_tables (snd (create_tables empty_store)) = (True, snd (create_tables empty_store))
   \<and> orders (snd (create_tables history_store)) = Some history_orders"
proof -
  have h: "users history_store = Some \<lparr>defn = users_def, rows = [], seq = 0\<rparr>
     \<and> orders history_store = Some history_orders
     \<and> cart_history history_store = Some history_cart"
    by (simp add: history_store_def)
  from create_tables_idempotent [of history_store "\<lparr>defn = users_def, rows = [], seq = 0\<rparr>"
      history_orders history_cart]
    create_tables_idempotent [of empty_store]
    h
  show ?thesis by simp
qed

section \<open>Rows are only appended\<close>

lemma kept_refl: "kept t t"
  by (simp add: kept_def split: option.splits)

lemma kept_trans: "kept a b \<Longrightarrow> kept b c \<Longrightarrow> kept a c"
  by (auto simp: kept_def split: option.splits)

lemma all_kept_refl: "all_kept d d"
  by (simp add: all_kept_def kept_refl)

lemma all_kept_trans: "all_kept a b \<Longrightarrow> all_kept b c \<Longrightarrow> all_kept a c"
  unfolding all_kept_def by (blast intro: kept_trans)

lemma db_run_kept: "all_kept d (snd (db_run io now s d))"
  by (cases s)
    (auto simp: db_run.simps all_kept_def kept_def Let_def split: option.splits)

lemma run_queued_kept: "all_kept d (run_queued e k pending d)"
proof (induction "length pending" arbitrary: pending k d)
  case 0
  then show ?case by (simp add: run_queued.simps all_kept_refl)
next
  case (Suc n)
  then have ne: "pending \<noteq> []" by auto
  define j where "j = pick e k mod length pending"
  define d1 where "d1 = snd (db_run (io_error e (fst (pending ! j))) (clock e (fst (pending ! j)))
      (insert_cart (snd (pending ! j))) d)"
  from ne have "j < length pending" by (simp add: j_def)
  with Suc.hyps(2) have "n = length (remove_nth j pending)"
    by (simp add: remove_nth_def)
  from Suc.hyps(1) [OF this] have rest: "all_kept d1 (run_queued e (Suc k) (remove_nth j pending) d1)" .
  have first: "all_kept d d1"
    unfolding d1_def by (rule db_run_kept)
  from all_kept_trans [OF first rest] first ne show ?case
    by (subst run_queued.simps) (simp add: Let_def j_def d1_def)
qed

lemma login_kept: "all_kept d (fst (snd (login e body d)))"
proof -
  have "all_kept d (snd (db_run (io_error e 1) (clock e 1)
          (INSERT_users (field body ''username'') (field body ''password'')) d))"
    by (rule db_run_kept)
  then show ?thesis
    by (auto simp: login_def Let_def all_kept_refl split: option.splits prod.splits)
qed

lemma place_order_kept: "all_kept d (fst (snd (place_order e body d)))"
proof -
  define s where "s = INSERT_orders (field body ''username'')
      (JSON_stringify (field body ''items'')) (field body ''total'')"
  obtain r d1 where run: "db_run (io_error e 0) (clock e 0) s d = (r, d1)"
    by (cases "db_run (io_error e 0) (clock e 0) s d")
  have k1: "all_kept d d1"
    using db_run_kept [of d "io_error e 0" "clock e 0" s] run by simp
  have queued: "all_kept d (run_queued e 0 pending d1)" for pending
    using k1 run_queued_kept by (rule all_kept_trans)
  show ?thesis
    using run k1 queued
    by (auto simp: place_order_def Let_def s_def all_kept_refl
        split: option.splits prod.splits jsval.splits bool.splits)
qed

lemma create_tables_kept: "all_kept d (snd (create_tables d))"
  by (cases "users d"; cases "orders d"; cases "cart_history d")
    (simp_all add: create_tables_def db_run_create_def all_kept_def kept_def)

text \<open>Claim C8. Whatever the request and whatever the route, and at start-up too, each
  of the three tables that exists still exists afterwards with the same definition, and
  the rows it had are the first rows it has, each identical to what it was: rows are
  only ever appended. (The statements of the handlers are inserts and selects; there is
  no update and no delete among them.)\<close>

theorem insert_only:
  "kept (users d) (users (fst (snd (handle e req d))))
   \<and> kept (orders d) (orders (fst (snd (handle e req d))))
   \<and> kept (cart_history d) (cart_history (fst (snd (handle e req d))))
   \<and> kept (users d) (users (snd (open_database err d)))
   \<and> kept (orders d) (orders (snd (open_database err d)))
   \<and> kept (cart_history d) (cart_history (snd (open_database err d)))"
proof -
  have "all_kept d (fst (snd (handle e req d)))"
  proof (cases req)
    case (POST_api_login body)
    then show ?thesis by (simp add: login_kept)
  next
    case (POST_api_order body)
    then show ?thesis by (simp add: place_order_kept)
  next
    case (GET_api_orders u)
    then show ?thesis by (simp add: list_orders_def all_kept_refl split: option.splits)
  next
    case (GET_api_cart_history u)
    then show ?thesis by (simp add: list_cart_history_def all_kept_refl split: option.splits)
  next
    case GET_admin
    then show ?thesis by (simp add: admin_def all_kept_refl split: option.splits)
  next
    case GET_admin_details
    then show ?thesis
      by (simp add: admin_details_def all_kept_refl Let_def
          split: option.splits source_file.splits)
  next
    case GET_health
    then show ?thesis by (simp add: all_kept_refl split: source_file.splits)
  next
    case GET_root
    then show ?thesis by (simp add: all_kept_refl)
  qed
  moreover have "all_kept d (snd (open_database err d))"
    by (simp add: open_database_def all_kept_refl create_tables_kept)
  ultimately show ?thesis
    by (simp add: all_kept_def)
qed

theorem insert_only_witness:
  "kept (users history_store)
     (users (fst (snd (handle working_env (POST_api_order pizza_order) history_store))))
   \<and> kept (orders history_store)
     (orders (fst (snd (handle working_env (POST_api_order pizza_order) history_store))))
   \<and> kept (cart_history history_store)
     (cart_history (fst (snd (handle working_env (POST_api_order pizza_order) history_store))))
   \<and> kept (users history_store) (users (snd (open_database False history_store)))
   \<and> kept (orders history_store) (orders (snd (open_database False history_store)))
   \<and> kept (cart_history history_store) (cart_history (snd (open_database False history_store)))"
  by (rule insert_only)

end
